theory Spec2Isabelle
  imports Main
begin

section \<open>Python values and exceptions\<close>

text \<open>
  Exceptions are values. \<open>ClientConnectorError\<close> carries the text that \<open>str(err)\<close>
  gives; \<open>OtherError\<close> stands for every exception of a library call that the program
  does not name (a timeout, a body that is not JSON, a closed websocket).
\<close>

datatype error = AttributeError | KeyError | TypeError | ValueError
  | ClientConnectorError string | OtherError string

text \<open>
  What \<open>resp.json()\<close> can return, and what \<open>pars_response\<close> builds. Floats are
  carried, never computed with, so their type is a parameter. A dict is an association
  list in insertion order.
\<close>

datatype 'f pyval = PNone | PBool bool | PInt int | PFloat 'f | PStr string
  | PList "'f pyval list" | PDict "('f pyval \<times> 'f pyval) list"

section \<open>String operations of the Python library\<close>

text \<open>Text is modelled as \<open>string\<close> and taken to be ASCII: \<open>upper\<close> maps the letters
  a to z and \<open>isdecimal\<close> accepts the digits 0 to 9.\<close>

definition startswith :: "string \<Rightarrow> string \<Rightarrow> bool" where
  "startswith s p = (take (length p) s = p)"

text \<open>\<open>s.split(sep)\<close> for a separator of one character: \<open>''''.split('','')\<close> is \<open>['''']\<close>.\<close>

fun split :: "char \<Rightarrow> string \<Rightarrow> string list" where
  "split sep [] = [[]]"
| "split sep (c # cs) =
     (if c = sep then [] # split sep cs
      else (case split sep cs of [] \<Rightarrow> [[c]] | w # ws \<Rightarrow> (c # w) # ws))"

fun join :: "string \<Rightarrow> string list \<Rightarrow> string" where
  "join sep [] = []"
| "join sep [x] = x"
| "join sep (x # y # ys) = x @ sep @ join sep (y # ys)"

definition upper_char :: "char \<Rightarrow> char" where
  "upper_char c =
     (case map_of (zip ''abcdefghijklmnopqrstuvwxyz'' ''ABCDEFGHIJKLMNOPQRSTUVWXYZ'') c of
        None \<Rightarrow> c | Some u \<Rightarrow> u)"

definition upper :: "string \<Rightarrow> string" where
  "upper s = map upper_char s"

definition isdigit :: "char \<Rightarrow> bool" where
  "isdigit c = (c \<in> set ''0123456789'')"

definition isdecimal :: "string \<Rightarrow> bool" where
  "isdecimal s = (s \<noteq> [] \<and> list_all isdigit s)"

definition digit_value :: "char \<Rightarrow> int" where
  "digit_value c =
     (case map_of (zip ''0123456789'' [0, 1, 2, 3, 4, 5, 6, 7, 8, 9]) c of
        None \<Rightarrow> 0 | Some d \<Rightarrow> d)"

definition decimal_value :: "string \<Rightarrow> int" where
  "decimal_value s = foldl (\<lambda>a c. 10 * a + digit_value c) 0 s"

text \<open>The interpreter's default limit on the digits of a string that \<open>int\<close> converts.\<close>

definition int_max_str_digits :: nat where
  "int_max_str_digits = 4300"

text \<open>\<open>int(s)\<close> on a string that \<open>isdecimal\<close> accepts: it raises \<open>ValueError\<close> when
  the string has more digits than the limit, leading zeros counted.\<close>

definition int_of_str :: "string \<Rightarrow> error + int" where
  "int_of_str s =
     (if length s > int_max_str_digits then Inl ValueError else Inr (decimal_value s))"

text \<open>\<open>str(n)\<close> for an integer that is not negative (an HTTP status).\<close>

fun str_nat :: "nat \<Rightarrow> string" where
  "str_nat n =
     (if n < 10 then [''0123456789'' ! n]
      else str_nat (n div 10) @ [''0123456789'' ! (n mod 10)])"

declare str_nat.simps [simp del]

text \<open>\<open>s.replace(old, new)\<close> for an \<open>old\<close> of one character.\<close>

definition replace :: "char \<Rightarrow> string \<Rightarrow> string \<Rightarrow> string" where
  "replace old new s = concat (map (\<lambda>c. if c = old then new else [c]) s)"

section \<open>exchange.py: constants\<close>

definition url :: string where
  "url = ''https://api.privatbank.ua/p24api/exchange_rates?json&date=''"

definition base_currency :: "string list" where
  "base_currency = [''EUR'', ''USD'']"

definition DATE_FORMAT :: string where
  "DATE_FORMAT = ''%d.%m.%Y''"

definition MAX_DAYS :: int where
  "MAX_DAYS = 10"

text \<open>The tuple the frozenset is built from, as written (it repeats codes).\<close>

definition API_CURRENCIES_tuple :: "string list" where
  "API_CURRENCIES_tuple =
    [''AUD'', ''AZN'', ''BYN'', ''CAD'', ''CHF'',
     ''CNY'', ''CZK'', ''DKK'', ''EUR'', ''GBP'', ''GEL'',
     ''HUF'', ''ILS'', ''JPY'', ''KZT'', ''MDL'', ''NOK'',
     ''PLN'', ''SEK'', ''SGD'', ''TMT'', ''TRY'', ''UAH'',
     ''USD'', ''UZS'', ''XAU'', ''AUD'', ''AZN'', ''BYN'',
     ''CAD'', ''CHF'', ''CNY'', ''CZK'', ''DKK'', ''EUR'',
     ''GBP'', ''GEL'', ''HUF'', ''ILS'', ''JPY'', ''KZT'',
     ''MDL'', ''NOK'', ''PLN'', ''SEK'', ''SGD'', ''TMT'',
     ''TRY'', ''USD'', ''UZS'', ''XAU'']"

definition API_CURRENCIES :: "string set" where
  "API_CURRENCIES = set API_CURRENCIES_tuple"

section \<open>The environment and the state\<close>

type_synonym conn = nat

text \<open>What one HTTP GET does: it raises, or answers with a status and what
  \<open>resp.json()\<close> would give (read only when the status is 200).\<close>

datatype 'f http_outcome = Raises error | Responds nat "error + 'f pyval"

text \<open>
  Everything the program reads from outside itself:
  the clock (\<open>today\<close> as a day number, \<open>strftime\<close> the date of a day number written by
  \<open>DATE_FORMAT\<close>, \<open>now\<close> the current time written by a format), the provider (\<open>http\<close>,
  by URL), the scheduler (\<open>completion n\<close>: the order in which the \<open>n\<close> requests of a
  batch finish), the file system (\<open>is_file\<close>), the peers (\<open>send_error c\<close>: the exception
  a send to \<open>c\<close> raises, if any; \<open>remote_address\<close>; \<open>get_full_name\<close>), the iteration
  orders of the two hash sets (\<open>iter_clients\<close>; \<open>iter_currencies\<close>, from which
  \<open>iter_API_CURRENCIES\<close> below makes an enumeration of the frozenset) and Python's
  \<open>str\<close> on values (\<open>py_str\<close>).
\<close>

record 'f world =
  today :: int
  strftime :: "int \<Rightarrow> string"
  now :: "string \<Rightarrow> string"
  http :: "string \<Rightarrow> 'f http_outcome"
  completion :: "nat \<Rightarrow> nat list"
  is_file :: "string \<Rightarrow> bool"
  send_error :: "conn \<Rightarrow> error option"
  remote_address :: "conn \<Rightarrow> string"
  get_full_name :: "nat \<Rightarrow> string"
  iter_clients :: "conn set \<Rightarrow> conn list"
  iter_currencies :: "string list"
  py_str :: "'f pyval \<Rightarrow> string"

text \<open>The effects on the outside, in the order they happen.\<close>

datatype event = HttpGet string | Sent conn string | LogInfo string
  | FileAppend string string | Print string

record AsyncLogger =
  date_format :: string
  file_path :: "string option"

text \<open>
  The state of the process: the registry \<open>Server.clients\<close>, the names given to
  connections, the lazily made logger, the store of list objects (\<open>lists\<close>, by
  address; \<open>next_ref\<close> is the next free address) and the trace of effects.
  Address \<open>default_currency\<close> holds the list that is the default value of the
  parameter \<open>currency\<close> of \<open>exchange_rates\<close>: one object, made when the function is defined.
\<close>

type_synonym ref = nat

record state =
  clients :: "conn set"
  conn_name :: "conn \<Rightarrow> string option"
  names_drawn :: nat
  file_logger :: "AsyncLogger option"
  lists :: "ref \<Rightarrow> string list"
  next_ref :: ref
  events :: "event list"

definition default_currency :: ref where
  "default_currency = 0"

definition emit :: "event list \<Rightarrow> state \<Rightarrow> state" where
  "emit es s = s\<lparr>events := events s @ es\<rparr>"

section \<open>exchange.py: parsing a response\<close>

definition dict_get :: "('f pyval \<times> 'f pyval) list \<Rightarrow> string \<Rightarrow> 'f pyval \<Rightarrow> 'f pyval" where
  "dict_get d k dflt = (case map_of d (PStr k) of None \<Rightarrow> dflt | Some v \<Rightarrow> v)"

text \<open>\<open>d.update({k: v})\<close>: a key already there keeps its place.\<close>

fun dict_update :: "'k \<Rightarrow> 'v \<Rightarrow> ('k \<times> 'v) list \<Rightarrow> ('k \<times> 'v) list" where
  "dict_update k v [] = [(k, v)]"
| "dict_update k v (p # ps) = (if fst p = k then (k, v) # ps else p # dict_update k v ps)"

text \<open>\<open>x[k]\<close> for a string \<open>k\<close>: only a dict can be indexed by a string.\<close>

definition getitem :: "'f pyval \<Rightarrow> string \<Rightarrow> error + 'f pyval" where
  "getitem x k =
     (case x of
        PDict d \<Rightarrow> (case map_of d (PStr k) of None \<Rightarrow> Inl KeyError | Some v \<Rightarrow> Inr v)
      | _ \<Rightarrow> Inl TypeError)"

text \<open>\<open>for curr in rates\<close>: what the loop iterates over.\<close>

definition py_iter :: "'f pyval \<Rightarrow> error + 'f pyval list" where
  "py_iter x =
     (case x of
        PList xs \<Rightarrow> Inr xs
      | PStr s \<Rightarrow> Inr (map (\<lambda>c. PStr [c]) s)
      | PDict d \<Rightarrow> Inr (map fst d)
      | _ \<Rightarrow> Inl TypeError)"

text \<open>\<open>x in currency\<close> for a list of strings.\<close>

definition py_in :: "'f pyval \<Rightarrow> string list \<Rightarrow> bool" where
  "py_in x currency = (case x of PStr c \<Rightarrow> c \<in> set currency | _ \<Rightarrow> False)"

definition hashable :: "'f pyval \<Rightarrow> bool" where
  "hashable x = (case x of PList _ \<Rightarrow> False | PDict _ \<Rightarrow> False | _ \<Rightarrow> True)"

definition rate_entry :: "('f pyval \<times> 'f pyval) list \<Rightarrow> 'f pyval" where
  "rate_entry d =
     PDict [(PStr ''sale'',
               dict_get d ''saleRate'' (dict_get d ''saleRateNB'' (PStr ''unavailable''))),
            (PStr ''purchase'',
               dict_get d ''purchaseRate'' (dict_get d ''purchaseRateNB'' (PStr ''unavailable'')))]"

text \<open>The loop of \<open>pars_response\<close> over the entries, with \<open>exchange_rate\<close> as accumulator.\<close>

fun pars_loop :: "string list \<Rightarrow> 'f pyval list \<Rightarrow> ('f pyval \<times> 'f pyval) list
    \<Rightarrow> error + ('f pyval \<times> 'f pyval) list" where
  "pars_loop currency [] exchange_rate = Inr exchange_rate"
| "pars_loop currency (cur # rest) exchange_rate =
     (case getitem cur ''currency'' of
        Inl e \<Rightarrow> Inl e
      | Inr code \<Rightarrow>
          if py_in code currency then
            (case cur of
               PDict d \<Rightarrow> pars_loop currency rest (dict_update code (rate_entry d) exchange_rate)
             | _ \<Rightarrow> Inl AttributeError)
          else pars_loop currency rest exchange_rate)"

definition pars_response :: "'f pyval \<Rightarrow> string list \<Rightarrow> error + 'f pyval" where
  "pars_response response currency =
     (case response of
        PDict r \<Rightarrow>
          (case map_of r (PStr ''exchangeRate'') of
             None \<Rightarrow> Inr (PDict [])
           | Some PNone \<Rightarrow> Inr (PDict [])
           | Some rates \<Rightarrow>
               (case py_iter rates of
                  Inl e \<Rightarrow> Inl e
                | Inr entries \<Rightarrow>
                    (case pars_loop currency entries [] of
                       Inl e \<Rightarrow> Inl e
                     | Inr exchange_rate \<Rightarrow>
                         (case map_of r (PStr ''date'') of
                            None \<Rightarrow> Inl KeyError
                          | Some d \<Rightarrow>
                              if hashable d then Inr (PDict [(d, PDict exchange_rate)])
                              else Inl TypeError))))
      | _ \<Rightarrow> Inl AttributeError)"

section \<open>exchange.py: requests\<close>

text \<open>The body of \<open>get_request\<close>, before the decorator.\<close>

definition get_request_body :: "'f world \<Rightarrow> string \<Rightarrow> error + 'f pyval" where
  "get_request_body w u =
     (case http w u of
        Raises e \<Rightarrow> Inl e
      | Responds status body \<Rightarrow>
          if status = 200 then body
          else Inr (PStr (''Error status: '' @ str_nat status @ '' for '' @ u)))"

definition connection_errors :: "('a \<Rightarrow> error + 'f pyval) \<Rightarrow> 'a \<Rightarrow> error + 'f pyval" where
  "connection_errors func x =
     (case func x of
        Inl (ClientConnectorError err) \<Rightarrow> Inr (PStr err)
      | Inl e \<Rightarrow> Inl e
      | Inr result \<Rightarrow> Inr result)"

definition get_request :: "'f world \<Rightarrow> string \<Rightarrow> error + 'f pyval" where
  "get_request w = connection_errors (get_request_body w)"

text \<open>Running computations one after the other: the first exception ends the run.\<close>

fun sequence :: "(error + 'a) list \<Rightarrow> error + 'a list" where
  "sequence [] = Inr []"
| "sequence (Inl e # rs) = Inl e"
| "sequence (Inr x # rs) = (case sequence rs of Inl e \<Rightarrow> Inl e | Inr xs \<Rightarrow> Inr (x # xs))"

fun first_error :: "(error + 'a) list \<Rightarrow> error option" where
  "first_error [] = None"
| "first_error (Inl e # rs) = Some e"
| "first_error (Inr x # rs) = first_error rs"

text \<open>
  \<open>asyncio.gather\<close> of awaitables with outcomes \<open>outs\<close> that finish in the order
  \<open>order\<close> (positions in \<open>outs\<close>): the first exception in finishing order is raised;
  with none, the results come in the order of the awaitables.
\<close>

definition gather :: "nat list \<Rightarrow> (error + 'a) list \<Rightarrow> error + 'a list" where
  "gather order outs =
     (case first_error (map (\<lambda>i. outs ! i) (filter (\<lambda>i. i < length outs) order)) of
        Some e \<Rightarrow> Inl e
      | None \<Rightarrow> sequence outs)"

definition request_url :: "'f world \<Rightarrow> nat \<Rightarrow> string" where
  "request_url w day = url @ strftime w (today w - int day)"

definition exchange_rates :: "'f world \<Rightarrow> int \<Rightarrow> ref \<Rightarrow> state
    \<Rightarrow> (error + 'f pyval list) \<times> state" where
  "exchange_rates w days currency s =
     (let s1 = s\<lparr>lists := (lists s)(currency := lists s currency @ base_currency)\<rparr>;
          days' = (if days > MAX_DAYS then MAX_DAYS else days);
          requests = map (request_url w) [0..<nat days'];
          s2 = emit (map HttpGet requests) s1
      in case gather (completion w (length requests)) (map (get_request w) requests) of
           Inl e \<Rightarrow> (Inl e, s2)
         | Inr cources \<Rightarrow>
             (sequence (map (\<lambda>course. pars_response course (lists s2 currency)) cources), s2))"

section \<open>exchange.py: the arguments\<close>

record kwargs =
  kw_days :: "int option"
  kw_currency :: "string list option"

definition no_kwargs :: kwargs where
  "no_kwargs = \<lparr>kw_days = None, kw_currency = None\<rparr>"

definition days_message :: string where
  "days_message = ''Invalid days count! It must be numeric value between 1 and 10''"

definition currency_message :: "string list \<Rightarrow> string" where
  "currency_message order =
     ''Invalid currency! Use one of available currencies:'' @ [CHR 0x0A] @ join '', '' order"

text \<open>
  The order in which the frozenset \<open>API_CURRENCIES\<close> iterates: the codes of the set that
  the environment names, in its order and once each, then the codes it does not name. The
  result is an enumeration of the set whatever the environment says, and it is the
  environment's own list when that list is an enumeration of the set.
\<close>

definition iter_API_CURRENCIES :: "'f world \<Rightarrow> string list" where
  "iter_API_CURRENCIES w =
     remdups (filter (\<lambda>c. c \<in> API_CURRENCIES) (iter_currencies w))
       @ filter (\<lambda>c. c \<notin> set (iter_currencies w)) (remdups API_CURRENCIES_tuple)"

text \<open>The second part of \<open>arg_parsing\<close>, on the currencies, with the keywords so far.\<close>

definition parse_currencies :: "'f world \<Rightarrow> string list \<Rightarrow> kwargs \<Rightarrow> kwargs \<times> string" where
  "parse_currencies w args kwargs =
     (if length args > 2 then
        (let currencies = split CHR '','' (upper (args ! 2))
         in if set currencies \<subseteq> API_CURRENCIES
            then (kwargs\<lparr>kw_currency := Some currencies\<rparr>, [])
            else (kwargs, currency_message (iter_API_CURRENCIES w)))
      else (kwargs, []))"

text \<open>\<open>arg_parsing\<close> returns the keywords and a message; an exception of \<open>int\<close> is not
  caught and leaves the function.\<close>

definition arg_parsing :: "'f world \<Rightarrow> string list \<Rightarrow> error + kwargs \<times> string" where
  "arg_parsing w args =
     (if length args > 1 then
        (if isdecimal (args ! 1) then
           (case int_of_str (args ! 1) of
              Inl e \<Rightarrow> Inl e
            | Inr days \<Rightarrow> Inr (parse_currencies w args (no_kwargs\<lparr>kw_days := Some days\<rparr>)))
         else Inr (no_kwargs, days_message))
      else Inr (parse_currencies w args no_kwargs))"

text \<open>\<open>exchange_rates(**kwargs)\<close>: a missing key takes the parameter's default; the list
  that \<open>arg_parsing\<close> made is an object of its own in the store.\<close>

definition exchange_rates_kw :: "'f world \<Rightarrow> kwargs \<Rightarrow> state \<Rightarrow> (error + 'f pyval list) \<times> state" where
  "exchange_rates_kw w kwargs s =
     (let days = (case kw_days kwargs of None \<Rightarrow> 1 | Some d \<Rightarrow> d)
      in case kw_currency kwargs of
           None \<Rightarrow> exchange_rates w days default_currency s
         | Some currencies \<Rightarrow>
             exchange_rates w days (next_ref s)
               (s\<lparr>lists := (lists s)(next_ref s := currencies), next_ref := Suc (next_ref s)\<rparr>))"

section \<open>exchange.py: rendering\<close>

text \<open>\<open>response_to_html\<close> on the list that \<open>exchange_rates\<close> returns (a list is iterable,
  so the first branch of the source is not taken).\<close>

definition response_to_html :: "'f world \<Rightarrow> 'f pyval list \<Rightarrow> string" where
  "response_to_html w response =
     concat (map (\<lambda>el. replace CHR ''}'' ''</li></ul>''
                          (replace CHR '','' ''</li><li>''
                            (replace CHR ''{'' ''<ul><li>''
                              (replace CHR 0x27 [] (py_str w el))))) response)"

section \<open>The audit logger\<close>

text \<open>
  \<open>set_file\<close> returns the outcome and the logger object as the call leaves it. For a
  file that does not exist the source calls \<open>path.touch(file)\<close>, which passes the file
  name where the library takes the integer mode: the call raises \<open>TypeError\<close>, makes no
  file, and the assignment of \<open>self.file\<close> is not reached. The writes of \<open>log\<close> are
  recorded as events (\<open>FileAppend\<close>, \<open>Print\<close>).
\<close>

definition set_file :: "'f world \<Rightarrow> AsyncLogger \<Rightarrow> string \<Rightarrow> (error + unit) \<times> AsyncLogger" where
  "set_file w lg f =
     (if \<not> is_file w f then (Inl TypeError, lg)
      else (Inr (), lg\<lparr>file_path := Some f\<rparr>))"

definition log :: "'f world \<Rightarrow> AsyncLogger \<Rightarrow> string \<Rightarrow> state \<Rightarrow> state" where
  "log w lg message s =
     (let log_message = ''At '' @ now w (date_format lg) @ '': '' @ message @ [CHR 0x0A]
      in case file_path lg of
           None \<Rightarrow> emit [Print log_message] s
         | Some p \<Rightarrow> emit [FileAppend p log_message] s)"

section \<open>server.py\<close>

definition log_file :: string where
  "log_file = ''log.log''"

text \<open>\<open>Server.logger\<close> stores the new logger before it calls \<open>set_file\<close>: when that call
  raises, the exception leaves \<open>logger\<close> and the stored logger has no file.\<close>

definition logger :: "'f world \<Rightarrow> state \<Rightarrow> (error + AsyncLogger) \<times> state" where
  "logger w s =
     (case file_logger s of
        None \<Rightarrow>
          (let lg = \<lparr>date_format = ''%d.%m.%Y %H:%M:%S.%f'', file_path = None\<rparr>
           in case set_file w lg log_file of
                (Inl e, lg') \<Rightarrow> (Inl e, s\<lparr>file_logger := Some lg'\<rparr>)
              | (Inr u, lg') \<Rightarrow> (Inr lg', s\<lparr>file_logger := Some lg'\<rparr>))
      | Some lg \<Rightarrow> (Inr lg, s))"

definition register :: "'f world \<Rightarrow> conn \<Rightarrow> state \<Rightarrow> state" where
  "register w ws s =
     emit [LogInfo (remote_address w ws @ '' connects'')]
       (s\<lparr>conn_name := (conn_name s)(ws \<mapsto> get_full_name w (names_drawn s)),
          names_drawn := Suc (names_drawn s),
          clients := insert ws (clients s)\<rparr>)"

text \<open>\<open>set.remove\<close> raises \<open>KeyError\<close> for an element that is not in the set.\<close>

definition unregister :: "'f world \<Rightarrow> conn \<Rightarrow> state \<Rightarrow> (error + unit) \<times> state" where
  "unregister w ws s =
     (if ws \<in> clients s
      then (Inr (), emit [LogInfo (remote_address w ws @ '' disconnects'')]
                      (s\<lparr>clients := clients s - {ws}\<rparr>))
      else (Inl KeyError, s))"

text \<open>The comprehension of \<open>send_to_clients\<close>: one send after the other, in the order
  the set iterates; an exception of a send leaves the comprehension.\<close>

fun send_each :: "'f world \<Rightarrow> string \<Rightarrow> conn list \<Rightarrow> state \<Rightarrow> (error + unit) \<times> state" where
  "send_each w message [] s = (Inr (), s)"
| "send_each w message (client # rest) s =
     (case send_error w client of
        Some e \<Rightarrow> (Inl e, s)
      | None \<Rightarrow> send_each w message rest (emit [Sent client message] s))"

definition send_to_clients :: "'f world \<Rightarrow> string \<Rightarrow> state \<Rightarrow> (error + unit) \<times> state" where
  "send_to_clients w message s =
     (if clients s \<noteq> {} then send_each w message (iter_clients w (clients s)) s
      else (Inr (), s))"

definition message_handle :: "'f world \<Rightarrow> string \<Rightarrow> string \<Rightarrow> state \<Rightarrow> (error + string) \<times> state" where
  "message_handle w message user_name s =
     (if startswith message ''exchange'' then
        (case logger w s of
           (Inl e, s1) \<Rightarrow> (Inl e, s1)
         | (Inr lg, s1) \<Rightarrow>
             (let s2 = log w lg (user_name @ '': '' @ message) s1;
                  result = message @ '' result:''
              in case arg_parsing w (split CHR '' '' message) of
                   Inl e \<Rightarrow> (Inl e, s2)
                 | Inr (kwargs, error_message) \<Rightarrow>
                     if error_message \<noteq> [] then (Inr (result @ error_message), s2)
                     else (case exchange_rates_kw w kwargs s2 of
                             (Inl e, s3) \<Rightarrow> (Inl e, s3)
                           | (Inr rates, s3) \<Rightarrow>
                               (Inr (result @ response_to_html w rates), s3))))
      else (Inr message, s))"

section \<open>Reading the trace\<close>

definition http_requests :: "state \<Rightarrow> string list" where
  "http_requests s = concat (map (\<lambda>e. case e of HttpGet u \<Rightarrow> [u] | _ \<Rightarrow> []) (events s))"

section \<open>A process and an environment to run the program in\<close>

text \<open>The process before any connection: an empty registry, no logger, and the default
  list of \<open>exchange_rates\<close>, still empty, as the only list object.\<close>

definition initial_state :: state where
  "initial_state =
     \<lparr>clients = {}, conn_name = (\<lambda>c. None), names_drawn = 0, file_logger = None,
      lists = (\<lambda>r. []), next_ref = 1, events = []\<rparr>"

text \<open>One day's answer of the provider; a float is written by its text.\<close>

definition day_response :: "string \<Rightarrow> string pyval" where
  "day_response d =
     PDict [(PStr ''date'', PStr d), (PStr ''bank'', PStr ''PB''),
       (PStr ''exchangeRate'', PList
         [PDict [(PStr ''currency'', PStr ''USD''), (PStr ''saleRate'', PFloat ''41.5''),
                 (PStr ''purchaseRate'', PFloat ''40.9'')],
          PDict [(PStr ''currency'', PStr ''PLN''), (PStr ''saleRateNB'', PFloat ''11.2''),
                 (PStr ''purchaseRateNB'', PFloat ''11.2'')],
          PDict [(PStr ''currency'', PStr ''EUR''), (PStr ''saleRateNB'', PFloat ''48.1''),
                 (PStr ''saleRate'', PFloat ''48.6'')]])]"

definition usd_eur_rates :: "string \<Rightarrow> string pyval" where
  "usd_eur_rates d =
     PDict [(PStr d, PDict
       [(PStr ''USD'', PDict [(PStr ''sale'', PFloat ''41.5''), (PStr ''purchase'', PFloat ''40.9'')]),
        (PStr ''EUR'', PDict [(PStr ''sale'', PFloat ''48.6''),
                              (PStr ''purchase'', PStr ''unavailable'')])])]"

text \<open>An environment on 3 November 2026 (day 739923): the provider answers the last two
  days, the request made last finishes first, the log file exists, and a send to
  connection 2 fails.\<close>

definition example_world :: "string world" where
  "example_world =
     \<lparr>today = 739923,
      strftime = (\<lambda>d. if d = 739923 then ''03.11.2026''
                       else if d = 739922 then ''02.11.2026'' else ''01.11.2026''),
      now = (\<lambda>fmt. ''03.11.2026 12:00:00.000000''),
      http = (\<lambda>u. if u = url @ ''03.11.2026'' then Responds 200 (Inr (day_response ''03.11.2026''))
                    else if u = url @ ''02.11.2026'' then Responds 200 (Inr (day_response ''02.11.2026''))
                    else Responds 404 (Inl (OtherError ''no body''))),
      completion = (\<lambda>n. rev [0..<n]),
      is_file = (\<lambda>f. True),
      send_error = (\<lambda>c. if c = 2 then Some (OtherError ''ConnectionClosedError'') else None),
      remote_address = (\<lambda>c. ''127.0.0.1''),
      get_full_name = (\<lambda>n. ''Ann Lee''),
      iter_clients = sorted_list_of_set,
      iter_currencies = remdups API_CURRENCIES_tuple,
      py_str = (\<lambda>v. ''{}'')\<rparr>"

text \<open>The same environment, but the provider answers today's request with status 503.\<close>

definition world_503 :: "string world" where
  "world_503 =
     example_world\<lparr>http := (\<lambda>u. if u = url @ ''03.11.2026''
                                  then Responds 503 (Inl (OtherError ''no body''))
                                  else http example_world u)\<rparr>"

text \<open>Three connections registered with a fresh server, one after the other.\<close>

definition three_clients :: state where
  "three_clients =
     register example_world 3 (register example_world 2 (register example_world 1 initial_state))"




section \<open>Sequencing and gathering\<close>

lemma sequence_map_Inr: "sequence (map Inr xs) = Inr xs"
  by (induction xs) auto

lemma sequence_Inr_D: "sequence rs = Inr xs \<Longrightarrow> rs = map Inr xs"
  by (induction rs arbitrary: xs rule: sequence.induct) (auto split: sum.splits)

lemma sequence_Inr_iff: "sequence rs = Inr xs \<longleftrightarrow> rs = map Inr xs"
  using sequence_map_Inr sequence_Inr_D by blast

lemma sequence_has_Inl: "Inl e \<in> set rs \<Longrightarrow> \<exists>e'. sequence rs = Inl e'"
  by (cases "sequence rs") (auto simp: sequence_Inr_iff)

lemma first_error_map_Inr: "first_error (map Inr xs) = None"
  by (induction xs) auto

lemma gather_Inr_D: "gather order outs = Inr xs \<Longrightarrow> outs = map Inr xs"
  by (auto simp: gather_def sequence_Inr_iff split: option.splits)

lemma filter_map_Inr_nth:
  "map (\<lambda>i. map Inr xs ! i) (filter (\<lambda>i. i < length xs) order)
     = map Inr (map (\<lambda>i. xs ! i) (filter (\<lambda>i. i < length xs) order))"
  by (induction order) auto

text \<open>When no awaitable raises, the finishing order does not show in the result.\<close>

lemma gather_map_Inr: "gather order (map Inr xs) = Inr xs"
  unfolding gather_def length_map filter_map_Inr_nth first_error_map_Inr
  by (simp add: sequence_map_Inr)

section \<open>A failed day in a batch\<close>

lemma pars_response_PStr: "pars_response (PStr m) currency = Inl AttributeError"
  by (simp add: pars_response_def)

lemma get_request_marker:
  assumes "http w u = Responds status body \<and> status \<noteq> 200
           \<or> http w u = Raises (ClientConnectorError txt)"
  shows "\<exists>m. get_request w u = Inr (PStr m)"
  using assms by (auto simp: get_request_def connection_errors_def get_request_body_def)

text \<open>
  C1. The claim: when one day's request of a batch meets a connection error or a status
  other than 200, \<open>exchange_rates\<close> still returns one result per day, the failed day as
  an error marker string. What the code does: \<open>get_request\<close> does turn the failure into
  a marker string, but \<open>exchange_rates\<close> then hands every gathered value to
  \<open>pars_response\<close>, which calls \<open>.get\<close> on it; on a string that raises, so the whole
  batch ends in an exception and no sequence is returned.
\<close>

theorem exchange_rates_marker_raises:
  assumes "k < nat (if days > MAX_DAYS then MAX_DAYS else days)"
    and "http w (request_url w k) = Responds status body \<and> status \<noteq> 200
         \<or> http w (request_url w k) = Raises (ClientConnectorError txt)"
  shows "(\<exists>m. get_request w (request_url w k) = Inr (PStr m))
       \<and> (\<exists>e. fst (exchange_rates w days currency s) = Inl e)"
proof -
  define d where "d = nat (if days > MAX_DAYS then MAX_DAYS else days)"
  define outs where "outs = map (get_request w) (map (request_url w) [0..<d])"
  from assms(2) obtain m where m: "get_request w (request_url w k) = Inr (PStr m)"
    using get_request_marker by blast
  have kd: "k < d" using assms(1) by (simp add: d_def)
  have raises: "\<exists>e. fst (exchange_rates w days currency s) = Inl e"
  proof (cases "gather (completion w d) outs")
    case (Inl e)
    then show ?thesis
      by (simp add: exchange_rates_def Let_def d_def outs_def)
  next
    case (Inr cources)
    then have outs: "outs = map Inr cources" by (rule gather_Inr_D)
    then have len: "length cources = d"
      by (metis length_map outs_def length_upt diff_zero)
    have "outs ! k = Inr (PStr m)" using kd m by (simp add: outs_def)
    then have ck: "cources ! k = PStr m" using outs kd len by simp
    have "Inl AttributeError \<in> set (map (\<lambda>course. pars_response course cur) cources)" for cur
    proof -
      have "map (\<lambda>course. pars_response course cur) cources ! k = Inl AttributeError"
        using ck kd len by (simp add: pars_response_PStr)
      then show ?thesis using kd len by (metis length_map nth_mem)
    qed
    then have "\<exists>e. sequence (map (\<lambda>course. pars_response course cur) cources) = Inl e" for cur
      by (rule sequence_has_Inl)
    then show ?thesis using Inr
      by (simp add: exchange_rates_def Let_def d_def outs_def)
  qed
  from m raises show ?thesis by blast
qed

theorem exchange_rates_marker_raises_witness:
  "(0::nat) < nat (if (2::int) > MAX_DAYS then MAX_DAYS else 2)
   \<and> http world_503 (request_url world_503 0) = Responds 503 (Inl (OtherError ''no body''))
   \<and> (\<exists>m. get_request world_503 (request_url world_503 0) = Inr (PStr m))
   \<and> (\<exists>e. fst (exchange_rates world_503 2 default_currency initial_state) = Inl e)"
proof -
  have a: "(0::nat) < nat (if (2::int) > MAX_DAYS then MAX_DAYS else 2)"
    by (simp add: MAX_DAYS_def)
  have b: "http world_503 (request_url world_503 0) = Responds 503 (Inl (OtherError ''no body''))"
    by (simp add: world_503_def example_world_def request_url_def)
  have c: "(503::nat) \<noteq> 200" by simp
  from exchange_rates_marker_raises
         [of 0 2 world_503 503 "Inl (OtherError ''no body'')" _ default_currency initial_state]
       a b c
  show ?thesis by blast
qed

text \<open>Two days, today's answered with 503: the call raises \<open>AttributeError\<close>.\<close>

lemma exchange_rates_503_AttributeError:
  "fst (exchange_rates world_503 2 default_currency initial_state) = Inl AttributeError"
  by code_simp

section \<open>Broadcast and the registry\<close>

lemma emit_Nil: "emit [] s = s"
  by (simp add: emit_def)

lemma emit_emit: "emit es (emit ds s) = emit (ds @ es) s"
  by (simp add: emit_def)

lemma clients_emit: "clients (emit es s) = clients s"
  by (simp add: emit_def)

lemma send_each_prefix:
  "list_all (\<lambda>x. send_error w x = None) before \<Longrightarrow>
   send_each w m (before @ rest) s = send_each w m rest (emit (map (\<lambda>x. Sent x m) before) s)"
  by (induction before arbitrary: s) (simp_all add: emit_Nil emit_emit)

text \<open>
  C2, as the code has it. \<open>send_to_clients\<close> has no handler around a send: when the send
  to connection \<open>c\<close> raises, the connections before \<open>c\<close> in the iteration order have
  the text, the exception reaches the caller, the connections after \<open>c\<close> get nothing,
  nothing is logged and the registry is as it was.
\<close>

theorem send_to_clients_failure_propagates:
  assumes "clients s \<noteq> {}"
    and "iter_clients w (clients s) = before @ c # rest"
    and "list_all (\<lambda>x. send_error w x = None) before"
    and "send_error w c = Some e"
  shows "send_to_clients w message s = (Inl e, emit (map (\<lambda>x. Sent x message) before) s)
       \<and> clients (snd (send_to_clients w message s)) = clients s"
  using assms by (simp add: send_to_clients_def send_each_prefix clients_emit)

lemma clients_three: "clients three_clients = {1, 2, 3}"
  by (auto simp: three_clients_def register_def emit_def initial_state_def)

lemma iter_three: "iter_clients example_world (clients three_clients) = [1, 2, 3]"
  by (simp add: clients_three example_world_def)

text \<open>
  Connections 1, 2 and 3 are registered and the send to 2 fails.
\<close>

theorem send_to_clients_failure_propagates_witness:
  "clients three_clients \<noteq> {}
   \<and> iter_clients example_world (clients three_clients) = [1] @ 2 # [3]
   \<and> list_all (\<lambda>x. send_error example_world x = None) [1]
   \<and> send_error example_world 2 = Some (OtherError ''ConnectionClosedError'')
   \<and> send_to_clients example_world ''hi'' three_clients
       = (Inl (OtherError ''ConnectionClosedError''), emit [Sent 1 ''hi''] three_clients)
   \<and> clients (snd (send_to_clients example_world ''hi'' three_clients)) = clients three_clients"
proof -
  have a: "clients three_clients \<noteq> {}" by (simp add: clients_three)
  have b: "iter_clients example_world (clients three_clients) = [1] @ 2 # [3]"
    by (simp add: iter_three)
  have c: "list_all (\<lambda>x. send_error example_world x = None) [1]"
    by (simp add: example_world_def)
  have d: "send_error example_world 2 = Some (OtherError ''ConnectionClosedError'')"
    by (simp add: example_world_def)
  from send_to_clients_failure_propagates [OF a b c d, of "''hi''"] a b c d
  show ?thesis by (simp add: clients_emit)
qed

text \<open>
  C2 as stated fails there: the caller of the broadcast gets the exception, connection 3
  gets no frame, no log line is added, and connection 2 stays registered.
\<close>

theorem send_to_clients_aborts:
  "fst (send_to_clients example_world ''hi'' three_clients) = Inl (OtherError ''ConnectionClosedError'')
   \<and> events (snd (send_to_clients example_world ''hi'' three_clients)) = events three_clients @ [Sent 1 ''hi'']
   \<and> clients (snd (send_to_clients example_world ''hi'' three_clients)) = {1, 2, 3}"
proof -
  have ne: "clients three_clients \<noteq> {}" by (simp add: clients_three)
  have "send_to_clients example_world ''hi'' three_clients
          = send_each example_world ''hi'' [1, 2, 3] three_clients"
    unfolding send_to_clients_def iter_three using ne by simp
  also have "\<dots> = (Inl (OtherError ''ConnectionClosedError''), emit [Sent 1 ''hi''] three_clients)"
    by (simp add: example_world_def)
  finally have r: "send_to_clients example_world ''hi'' three_clients
          = (Inl (OtherError ''ConnectionClosedError''), emit [Sent 1 ''hi''] three_clients)" .
  have ev: "events (emit [Sent 1 ''hi''] three_clients) = events three_clients @ [Sent 1 ''hi'']"
    by (simp add: emit_def)
  show ?thesis unfolding r using ev by (simp add: clients_emit clients_three)
qed

text \<open>
  C3, as the code has it. \<open>unregister\<close> uses \<open>set.remove\<close>: for a connection that is
  not in the registry it raises \<open>KeyError\<close>, before the log line; the state is unchanged.
\<close>

theorem unregister_absent_raises:
  "ws \<notin> clients s \<Longrightarrow> unregister w ws s = (Inl KeyError, s)"
  by (simp add: unregister_def)

text \<open>
  No connection is registered in the initial state.
\<close>

theorem unregister_absent_raises_witness:
  "1 \<notin> clients initial_state \<and> unregister example_world 1 initial_state = (Inl KeyError, initial_state)"
proof -
  have a: "1 \<notin> clients initial_state" by (simp add: initial_state_def)
  from unregister_absent_raises [OF a] a show ?thesis by simp
qed

text \<open>
  C3 as stated fails: a connection is registered and unregistered, after which it is not
  a member; unregistering it once more raises instead of doing nothing.
\<close>

theorem unregister_twice_raises:
  "fst (unregister example_world 1 (register example_world 1 initial_state)) = Inr ()
   \<and> 1 \<notin> clients (snd (unregister example_world 1 (register example_world 1 initial_state)))
   \<and> fst (unregister example_world 1
            (snd (unregister example_world 1 (register example_world 1 initial_state))))
       = Inl KeyError"
  by (simp add: unregister_def register_def emit_def initial_state_def)

section \<open>The currency list is extended in place\<close>

lemma exchange_rates_lists:
  "lists (snd (exchange_rates w days currency s)) = (lists s)(currency := lists s currency @ base_currency)"
  by (simp add: exchange_rates_def Let_def emit_def split: sum.splits)

text \<open>
  C9. \<open>exchange_rates\<close> appends the two base currencies to the list object it is given,
  whatever happens afterwards in the call. A call without the argument is given the
  default object, so that list is longer after each such call: by four entries after two.
\<close>

theorem exchange_rates_extends_currency:
  "lists (snd (exchange_rates w days currency s)) currency = lists s currency @ [''EUR'', ''USD'']
   \<and> (kw_currency kwargs = None \<longrightarrow>
        lists (snd (exchange_rates_kw w kwargs s)) default_currency
          = lists s default_currency @ [''EUR'', ''USD''])
   \<and> (kw_currency kwargs = None \<and> kw_currency kwargs' = None \<longrightarrow>
        lists (snd (exchange_rates_kw w' kwargs' (snd (exchange_rates_kw w kwargs s)))) default_currency
          = lists s default_currency @ [''EUR'', ''USD'', ''EUR'', ''USD''])"
  by (simp add: exchange_rates_kw_def exchange_rates_lists base_currency_def)

text \<open>
  Two calls without arguments from the initial state.
\<close>

theorem exchange_rates_extends_currency_witness:
  "lists (snd (exchange_rates example_world 1 default_currency initial_state)) default_currency
     = [''EUR'', ''USD'']
   \<and> kw_currency no_kwargs = None
   \<and> lists (snd (exchange_rates_kw example_world no_kwargs
                    (snd (exchange_rates_kw example_world no_kwargs initial_state)))) default_currency
       = [''EUR'', ''USD'', ''EUR'', ''USD'']"
proof -
  have a: "kw_currency no_kwargs = None" by (simp add: no_kwargs_def)
  have b: "lists initial_state default_currency = []" by (simp add: initial_state_def)
  from exchange_rates_extends_currency
         [of example_world 1 default_currency initial_state no_kwargs no_kwargs example_world] a b
  show ?thesis by simp
qed

section \<open>Responses without rates\<close>

text \<open>
  C7. A response with no \<open>exchangeRate\<close> key parses to the empty dict (which carries
  no date); a response whose \<open>exchangeRate\<close> is the empty list parses to one entry, the
  response's own date (any value a dict can be keyed by) with an empty rate map. Neither
  raises.
\<close>

theorem pars_response_without_rates:
  "(map_of r (PStr ''exchangeRate'') = None \<longrightarrow> pars_response (PDict r) currency = Inr (PDict []))
   \<and> (map_of r (PStr ''exchangeRate'') = Some (PList []) \<and> map_of r (PStr ''date'') = Some d
        \<and> hashable d \<longrightarrow>
        pars_response (PDict r) currency = Inr (PDict [(d, PDict [])]))"
  by (simp add: pars_response_def py_iter_def)

text \<open>
  A response with a date only, and one with a date and an empty list of rates.
\<close>

theorem pars_response_without_rates_witness:
  "map_of [(PStr ''date'', PStr ''03.11.2026'')] (PStr ''exchangeRate'') = None
   \<and> pars_response (PDict [(PStr ''date'', PStr ''03.11.2026'')]) [''EUR'', ''USD''] = Inr (PDict [])
   \<and> map_of [(PStr ''date'', PStr ''03.11.2026''), (PStr ''exchangeRate'', PList [])]
        (PStr ''exchangeRate'') = Some (PList [])
   \<and> map_of [(PStr ''date'', PStr ''03.11.2026''), (PStr ''exchangeRate'', PList [])]
        (PStr ''date'') = Some (PStr ''03.11.2026'')
   \<and> hashable (PStr ''03.11.2026'')
   \<and> pars_response (PDict [(PStr ''date'', PStr ''03.11.2026''), (PStr ''exchangeRate'', PList [])])
        [''EUR'', ''USD'']
       = Inr (PDict [(PStr ''03.11.2026'', PDict [])])"
proof -
  have a: "map_of [(PStr ''date'', PStr ''03.11.2026'')] (PStr ''exchangeRate'') = None"
    by simp
  have b: "map_of [(PStr ''date'', PStr ''03.11.2026''), (PStr ''exchangeRate'', PList [])]
        (PStr ''exchangeRate'') = Some (PList [])" by simp
  have c: "map_of [(PStr ''date'', PStr ''03.11.2026''), (PStr ''exchangeRate'', PList [])]
        (PStr ''date'') = Some (PStr ''03.11.2026'')" by simp
  have d: "hashable (PStr ''03.11.2026'')" by (simp add: hashable_def)
  have r1: "pars_response (PDict [(PStr ''date'', PStr ''03.11.2026'')]) [''EUR'', ''USD'']
              = Inr (PDict [])"
    using pars_response_without_rates
            [of "[(PStr ''date'', PStr ''03.11.2026'')]" "[''EUR'', ''USD'']" "PStr ''03.11.2026''"] a
    by (elim conjE) (rule mp)
  have r2: "pars_response (PDict [(PStr ''date'', PStr ''03.11.2026''), (PStr ''exchangeRate'', PList [])])
              [''EUR'', ''USD'']
            = Inr (PDict [(PStr ''03.11.2026'', PDict [])])"
    using pars_response_without_rates
            [of "[(PStr ''date'', PStr ''03.11.2026''), (PStr ''exchangeRate'', PList [])]"
                "[''EUR'', ''USD'']" "PStr ''03.11.2026''"] b c d
    by (elim conjE) (erule mp, intro conjI)
  from a r1 b c d r2 show ?thesis by (intro conjI)
qed


section \<open>The requests of a batch and the order of the results\<close>

lemma events_exchange_rates:
  "events (snd (exchange_rates w days currency s))
     = events s @ map HttpGet (map (request_url w) [0..<nat (if days > MAX_DAYS then MAX_DAYS else days)])"
proof -
  define d where "d = nat (if days > MAX_DAYS then MAX_DAYS else days)"
  show ?thesis
    unfolding exchange_rates_def Let_def d_def [symmetric]
    by (cases "gather (completion w (length (map (request_url w) [0..<d])))
                 (map (get_request w) (map (request_url w) [0..<d]))")
       (simp_all add: emit_def)
qed

lemma http_requests_HttpGet:
  "concat (map (\<lambda>e. case e of HttpGet u \<Rightarrow> [u] | _ \<Rightarrow> []) (map HttpGet us)) = us"
  by (induction us) auto

lemma http_requests_exchange_rates:
  "http_requests (snd (exchange_rates w days currency s))
     = http_requests s @ map (request_url w) [0..<nat (if days > MAX_DAYS then MAX_DAYS else days)]"
  unfolding http_requests_def events_exchange_rates map_append concat_append http_requests_HttpGet ..

lemma exchange_rates_all_answered:
  assumes "d = nat (if days > MAX_DAYS then MAX_DAYS else days)"
    and "\<forall>k<d. get_request w (request_url w k) = Inr (resp k)
              \<and> pars_response (resp k) (lists s currency @ base_currency) = Inr (rate k)"
  shows "fst (exchange_rates w days currency s) = Inr (map rate [0..<d])"
proof -
  have outs: "map (get_request w) (map (request_url w) [0..<d]) = map Inr (map resp [0..<d])"
    using assms(2) by simp
  have parsed: "map (\<lambda>course. pars_response course (lists s currency @ base_currency)) (map resp [0..<d])
                  = map Inr (map rate [0..<d])"
    using assms(2) by simp
  show ?thesis
    unfolding exchange_rates_def Let_def assms(1) [symmetric] outs gather_map_Inr
    using parsed by (simp add: emit_def sequence_map_Inr del: map_map)
qed

text \<open>
  C8. For \<open>d\<close> the clamped day count, the call issues the requests for the offsets
  \<open>0, ..., d - 1\<close>, one each and in that order, each to the endpoint followed by the
  formatted date of today minus the offset. When each request is answered and each
  answer parses, the result has the parsed answer of offset \<open>k\<close> at position \<open>k\<close>,
  whatever the order \<open>order\<close> in which the requests finish.
\<close>

theorem exchange_rates_offset_order:
  assumes "d = nat (if days > MAX_DAYS then MAX_DAYS else days)"
  shows "http_requests (snd (exchange_rates (w\<lparr>completion := order\<rparr>) days currency s))
           = http_requests s @ map (\<lambda>k. url @ strftime w (today w - int k)) [0..<d]
       \<and> ((\<forall>k<d. get_request w (url @ strftime w (today w - int k)) = Inr (resp k)
                  \<and> pars_response (resp k) (lists s currency @ base_currency) = Inr (rate k))
            \<longrightarrow> fst (exchange_rates (w\<lparr>completion := order\<rparr>) days currency s)
                  = Inr (map rate [0..<d]))"
proof -
  let ?w = "w\<lparr>completion := order\<rparr>"
  have u: "request_url ?w = (\<lambda>k. url @ strftime w (today w - int k))"
    by (simp add: request_url_def fun_eq_iff)
  have g: "get_request ?w = get_request w"
    by (simp add: get_request_def connection_errors_def get_request_body_def fun_eq_iff)
  have req: "http_requests (snd (exchange_rates ?w days currency s))
           = http_requests s @ map (\<lambda>k. url @ strftime w (today w - int k)) [0..<d]"
    unfolding http_requests_exchange_rates u assms ..
  have res: "fst (exchange_rates ?w days currency s) = Inr (map rate [0..<d])"
    if "\<forall>k<d. get_request w (url @ strftime w (today w - int k)) = Inr (resp k)
              \<and> pars_response (resp k) (lists s currency @ base_currency) = Inr (rate k)"
    using exchange_rates_all_answered [of d days ?w resp s currency rate] assms that
    by (simp add: u g)
  from req res show ?thesis by blast
qed

lemma pars_day_response:
  "pars_response (day_response d) [''EUR'', ''USD''] = Inr (usd_eur_rates d)"
  by (simp add: pars_response_def day_response_def usd_eur_rates_def py_iter_def getitem_def
        py_in_def rate_entry_def dict_get_def hashable_def)

text \<open>
  Two days on the example environment, yesterday's request finishing first.
\<close>

theorem exchange_rates_offset_order_witness:
  "(2::nat) = nat (if (2::int) > MAX_DAYS then MAX_DAYS else 2)
   \<and> http_requests (snd (exchange_rates (example_world\<lparr>completion := \<lambda>n. [1, 0]\<rparr>) 2
                           default_currency initial_state))
       = [url @ ''03.11.2026'', url @ ''02.11.2026'']
   \<and> fst (exchange_rates (example_world\<lparr>completion := \<lambda>n. [1, 0]\<rparr>) 2 default_currency initial_state)
       = Inr [usd_eur_rates ''03.11.2026'', usd_eur_rates ''02.11.2026'']"
proof -
  let ?resp = "\<lambda>k::nat. day_response (if k = 0 then ''03.11.2026'' else ''02.11.2026'')"
  let ?rate = "\<lambda>k::nat. usd_eur_rates (if k = 0 then ''03.11.2026'' else ''02.11.2026'')"
  have a: "(2::nat) = nat (if (2::int) > MAX_DAYS then MAX_DAYS else 2)"
    by (simp add: MAX_DAYS_def)
  have l: "lists initial_state default_currency @ base_currency = [''EUR'', ''USD'']"
    by (simp add: initial_state_def base_currency_def)
  have g0: "get_request example_world (url @ strftime example_world (today example_world - int 0))
              = Inr (?resp 0)"
    by (simp add: example_world_def get_request_def connection_errors_def get_request_body_def)
  have g1: "get_request example_world (url @ strftime example_world (today example_world - int 1))
              = Inr (?resp 1)"
    by (simp add: example_world_def get_request_def connection_errors_def get_request_body_def)
  have h: "\<forall>k<2. get_request example_world (url @ strftime example_world (today example_world - int k))
                = Inr (?resp k)
              \<and> pars_response (?resp k) (lists initial_state default_currency @ base_currency)
                = Inr (?rate k)"
  proof (intro allI impI)
    fix k :: nat assume "k < 2"
    then have "k = 0 \<or> k = 1" by auto
    then show "get_request example_world (url @ strftime example_world (today example_world - int k))
                = Inr (?resp k)
              \<and> pars_response (?resp k) (lists initial_state default_currency @ base_currency)
                = Inr (?rate k)"
      using g0 g1 unfolding l by (auto simp: pars_day_response)
  qed
  have u: "map (\<lambda>k. url @ strftime example_world (today example_world - int k)) [0..<2]
             = [url @ ''03.11.2026'', url @ ''02.11.2026'']"
    by (simp add: example_world_def upt_rec)
  have e: "http_requests initial_state = []" by (simp add: initial_state_def http_requests_def)
  note t = exchange_rates_offset_order
             [where w = example_world and order = "\<lambda>n. [1, 0]" and currency = default_currency
                and s = initial_state and resp = ?resp and rate = ?rate, OF a]
  from t have r1: "http_requests (snd (exchange_rates (example_world\<lparr>completion := \<lambda>n. [1, 0]\<rparr>) 2
                           default_currency initial_state))
       = http_requests initial_state
           @ map (\<lambda>k. url @ strftime example_world (today example_world - int k)) [0..<2]"
    by (rule conjunct1)
  from t h have r2: "fst (exchange_rates (example_world\<lparr>completion := \<lambda>n. [1, 0]\<rparr>) 2
                           default_currency initial_state)
       = Inr (map ?rate [0..<2])"
    by (elim conjE) (erule mp)
  have m: "map ?rate [0..<2] = [usd_eur_rates ''03.11.2026'', usd_eur_rates ''02.11.2026'']"
    by (simp add: upt_rec)
  from a r1 r2 show ?thesis unfolding u e m by simp
qed

section \<open>The order of the allow-list\<close>

lemma set_iter_API_CURRENCIES: "set (iter_API_CURRENCIES w) = API_CURRENCIES"
  by (auto simp: iter_API_CURRENCIES_def API_CURRENCIES_def)

lemma distinct_iter_API_CURRENCIES: "distinct (iter_API_CURRENCIES w)"
  by (auto simp: iter_API_CURRENCIES_def)

lemma iter_API_CURRENCIES_enumeration:
  assumes "distinct (iter_currencies w)" and "set (iter_currencies w) = API_CURRENCIES"
  shows "iter_API_CURRENCIES w = iter_currencies w"
proof -
  have a: "filter (\<lambda>c. c \<in> API_CURRENCIES) (iter_currencies w) = iter_currencies w"
    using assms(2) by simp
  have b: "filter (\<lambda>c. c \<notin> set (iter_currencies w)) (remdups API_CURRENCIES_tuple) = []"
    using assms(2) by (simp add: API_CURRENCIES_def filter_empty_conv)
  show ?thesis unfolding iter_API_CURRENCIES_def a b using assms(1) by (simp add: distinct_remdups_id)
qed

section \<open>Commands that do not parse\<close>

lemma http_requests_emit:
  "http_requests (emit es s) = http_requests s @ concat (map (\<lambda>e. case e of HttpGet u \<Rightarrow> [u] | _ \<Rightarrow> []) es)"
  by (simp add: http_requests_def emit_def)

lemma http_requests_log: "http_requests (log w lg m s) = http_requests s"
  by (simp add: log_def Let_def http_requests_emit split: option.splits)

lemma http_requests_logger: "http_requests (snd (logger w s)) = http_requests s"
  by (simp add: logger_def set_file_def Let_def http_requests_def split: option.splits)

lemma message_handle_echo:
  "\<not> startswith message ''exchange'' \<Longrightarrow> message_handle w message user_name s = (Inr message, s)"
  by (simp add: message_handle_def)

lemma message_handle_no_logger:
  assumes "startswith message ''exchange''" and "logger w s = (Inl e, s1)"
  shows "message_handle w message user_name s = (Inl e, s1)"
  using assms by (simp add: message_handle_def)

lemma message_handle_error:
  assumes "startswith message ''exchange''" and "logger w s = (Inr lg, s1)"
    and "arg_parsing w (split CHR '' '' message) = Inr (kw, msg)" and "msg \<noteq> []"
  shows "message_handle w message user_name s
           = (Inr (message @ '' result:'' @ msg), log w lg (user_name @ '': '' @ message) s1)"
  using assms by (simp add: message_handle_def Let_def)

lemma message_handle_parse_raises:
  assumes "startswith message ''exchange''" and "logger w s = (Inr lg, s1)"
    and "arg_parsing w (split CHR '' '' message) = Inl e"
  shows "message_handle w message user_name s
           = (Inl e, log w lg (user_name @ '': '' @ message) s1)"
  using assms by (simp add: message_handle_def Let_def)

lemma message_handle_no_fetch:
  assumes "\<forall>kw. arg_parsing w (split CHR '' '' message) \<noteq> Inr (kw, [])"
  shows "http_requests (snd (message_handle w message user_name s)) = http_requests s"
proof (cases "startswith message ''exchange''")
  case False
  then show ?thesis by (simp add: message_handle_echo)
next
  case True
  obtain r s1 where l: "logger w s = (r, s1)" by (cases "logger w s")
  then have h1: "http_requests s1 = http_requests s"
    using http_requests_logger [of w s] by simp
  show ?thesis
  proof (cases r)
    case (Inl e)
    with True l h1 show ?thesis by (simp add: message_handle_no_logger)
  next
    case (Inr lg)
    show ?thesis
    proof (cases "arg_parsing w (split CHR '' '' message)")
      case (Inl e)
      with True l Inr h1 show ?thesis
        by (simp add: message_handle_parse_raises http_requests_log)
    next
      case p: (Inr km)
      obtain kw msg where km: "km = (kw, msg)" by (cases km)
      with p assms have "msg \<noteq> []" by auto
      with True l Inr p km h1 show ?thesis
        by (simp add: message_handle_error http_requests_log)
    qed
  qed
qed

lemma arg_parsing_days_error:
  "length args > 1 \<Longrightarrow> \<not> isdecimal (args ! 1) \<Longrightarrow> arg_parsing w args = Inr (no_kwargs, days_message)"
  by (simp add: arg_parsing_def)

lemma arg_parsing_too_long:
  "length args > 1 \<Longrightarrow> isdecimal (args ! 1) \<Longrightarrow> length (args ! 1) > 4300 \<Longrightarrow>
   arg_parsing w args = Inl ValueError"
  by (simp add: arg_parsing_def int_of_str_def int_max_str_digits_def)

lemma arg_parsing_currency_error:
  "length args > 2 \<Longrightarrow> isdecimal (args ! 1) \<Longrightarrow> length (args ! 1) \<le> 4300 \<Longrightarrow>
   \<not> set (split CHR '','' (upper (args ! 2))) \<subseteq> API_CURRENCIES \<Longrightarrow>
   arg_parsing w args = Inr (no_kwargs\<lparr>kw_days := Some (decimal_value (args ! 1))\<rparr>,
                             currency_message (iter_API_CURRENCIES w))"
  by (simp add: arg_parsing_def parse_currencies_def Let_def int_of_str_def int_max_str_digits_def)

lemma days_message_nonempty: "days_message \<noteq> []"
  by (simp add: days_message_def)

lemma currency_message_nonempty: "currency_message order \<noteq> []"
  by (simp add: currency_message_def)

text \<open>
  C4, as the code has it. When the currency list holds a code outside the allow-list,
  parsing does not succeed (no keywords come with an empty message) and the command makes
  no request. The day count is checked first: a day-count token that is not a decimal
  literal returns the message about the day count, before the currencies are looked at;
  a decimal token that \<open>int\<close> converts (at most 4300 digits) returns the message that
  lists the allow-list, each of its codes once, in the order the frozenset iterates; a
  longer decimal token makes \<open>int\<close> raise.
\<close>

theorem arg_parsing_bad_currency:
  assumes "length args > 2"
    and "\<not> set (split CHR '','' (upper (args ! 2))) \<subseteq> API_CURRENCIES"
  shows "(\<forall>kw. arg_parsing w args \<noteq> Inr (kw, []))
       \<and> (isdecimal (args ! 1) \<and> length (args ! 1) \<le> 4300 \<longrightarrow>
            arg_parsing w args
              = Inr (\<lparr>kw_days = Some (decimal_value (args ! 1)), kw_currency = None\<rparr>,
                     ''Invalid currency! Use one of available currencies:'' @ [CHR 0x0A]
                       @ join '', '' (iter_API_CURRENCIES w)))
       \<and> set (iter_API_CURRENCIES w) = API_CURRENCIES
       \<and> distinct (iter_API_CURRENCIES w)
       \<and> (\<not> isdecimal (args ! 1) \<longrightarrow>
            arg_parsing w args
              = Inr (\<lparr>kw_days = None, kw_currency = None\<rparr>,
                     ''Invalid days count! It must be numeric value between 1 and 10''))
       \<and> (isdecimal (args ! 1) \<and> length (args ! 1) > 4300 \<longrightarrow>
            arg_parsing w args = Inl ValueError)
       \<and> (split CHR '' '' message = args \<longrightarrow>
            http_requests (snd (message_handle w message user_name s)) = http_requests s)"
proof -
  have len1: "length args > 1" using assms(1) by simp
  have cur: "isdecimal (args ! 1) \<and> length (args ! 1) \<le> 4300 \<longrightarrow>
            arg_parsing w args
              = Inr (\<lparr>kw_days = Some (decimal_value (args ! 1)), kw_currency = None\<rparr>,
                     ''Invalid currency! Use one of available currencies:'' @ [CHR 0x0A]
                       @ join '', '' (iter_API_CURRENCIES w))"
    using arg_parsing_currency_error [OF assms(1) _ _ assms(2), of w]
    by (simp add: no_kwargs_def currency_message_def)
  have days: "\<not> isdecimal (args ! 1) \<longrightarrow>
            arg_parsing w args
              = Inr (\<lparr>kw_days = None, kw_currency = None\<rparr>,
                     ''Invalid days count! It must be numeric value between 1 and 10'')"
    using arg_parsing_days_error [OF len1, of w]
    by (simp add: no_kwargs_def days_message_def)
  have long: "isdecimal (args ! 1) \<and> length (args ! 1) > 4300 \<longrightarrow>
            arg_parsing w args = Inl ValueError"
    using arg_parsing_too_long [OF len1, of w] by simp
  have fails: "\<forall>kw. arg_parsing w args \<noteq> Inr (kw, [])"
  proof (cases "isdecimal (args ! 1)")
    case False
    with days show ?thesis by simp
  next
    case True
    show ?thesis
    proof (cases "length (args ! 1) \<le> 4300")
      case True
      with \<open>isdecimal (args ! 1)\<close> cur show ?thesis by simp
    next
      case False
      with \<open>isdecimal (args ! 1)\<close> long show ?thesis by simp
    qed
  qed
  have nofetch: "split CHR '' '' message = args \<longrightarrow>
            http_requests (snd (message_handle w message user_name s)) = http_requests s"
    using fails message_handle_no_fetch by blast
  from fails cur days long nofetch set_iter_API_CURRENCIES distinct_iter_API_CURRENCIES
  show ?thesis by blast
qed

lemma bad_in_list: "\<not> set (split CHR '','' (upper ''usd,xxx'')) \<subseteq> API_CURRENCIES"
  by (simp add: upper_def upper_char_def API_CURRENCIES_def API_CURRENCIES_tuple_def)

lemma iter_example_world:
  "iter_API_CURRENCIES example_world =
     [''UAH'', ''AUD'', ''AZN'', ''BYN'', ''CAD'', ''CHF'', ''CNY'', ''CZK'', ''DKK'', ''EUR'',
      ''GBP'', ''GEL'', ''HUF'', ''ILS'', ''JPY'', ''KZT'', ''MDL'', ''NOK'', ''PLN'', ''SEK'',
      ''SGD'', ''TMT'', ''TRY'', ''USD'', ''UZS'', ''XAU'']"
  by (simp add: iter_API_CURRENCIES_def example_world_def API_CURRENCIES_def API_CURRENCIES_tuple_def)


text \<open>
  The command \<open>exchange 2 usd,xxx\<close>.
\<close>

theorem arg_parsing_bad_currency_witness:
  "length [''exchange'', ''2'', ''usd,xxx''] > 2
   \<and> \<not> set (split CHR '','' (upper ([''exchange'', ''2'', ''usd,xxx''] ! 2))) \<subseteq> API_CURRENCIES
   \<and> isdecimal ([''exchange'', ''2'', ''usd,xxx''] ! 1)
   \<and> length ([''exchange'', ''2'', ''usd,xxx''] ! 1) \<le> 4300
   \<and> split CHR '' '' ''exchange 2 usd,xxx'' = [''exchange'', ''2'', ''usd,xxx'']
   \<and> arg_parsing example_world [''exchange'', ''2'', ''usd,xxx'']
       = Inr (\<lparr>kw_days = Some 2, kw_currency = None\<rparr>,
              ''Invalid currency! Use one of available currencies:'' @ [CHR 0x0A]
                @ ''UAH, AUD, AZN, BYN, CAD, CHF, CNY, CZK, DKK, EUR, GBP, GEL, HUF, ''
                @ ''ILS, JPY, KZT, MDL, NOK, PLN, SEK, SGD, TMT, TRY, USD, UZS, XAU'')
   \<and> http_requests (snd (message_handle example_world ''exchange 2 usd,xxx'' ''Bob'' initial_state))
       = http_requests initial_state"
proof -
  let ?args = "[''exchange'', ''2'', ''usd,xxx'']"
  have a: "length ?args > 2" by simp
  have b: "\<not> set (split CHR '','' (upper (?args ! 2))) \<subseteq> API_CURRENCIES"
    using bad_in_list by simp
  have c: "isdecimal (?args ! 1)"
    by (simp add: isdecimal_def isdigit_def)
  have c': "length (?args ! 1) \<le> 4300" by simp
  have d: "split CHR '' '' ''exchange 2 usd,xxx'' = ?args"
    by simp
  have v: "decimal_value (?args ! 1) = 2" by (simp add: decimal_value_def digit_value_def)
  note t = arg_parsing_bad_currency
             [where w = example_world and message = "''exchange 2 usd,xxx''"
                and user_name = "''Bob''" and s = initial_state, OF a b]
  from t c c' have "arg_parsing example_world ?args
       = Inr (\<lparr>kw_days = Some (decimal_value (?args ! 1)), kw_currency = None\<rparr>,
              ''Invalid currency! Use one of available currencies:'' @ [CHR 0x0A]
                @ join '', '' (iter_API_CURRENCIES example_world))"
    by blast
  then have r1: "arg_parsing example_world ?args
       = Inr (\<lparr>kw_days = Some 2, kw_currency = None\<rparr>,
              ''Invalid currency! Use one of available currencies:'' @ [CHR 0x0A]
                @ ''UAH, AUD, AZN, BYN, CAD, CHF, CNY, CZK, DKK, EUR, GBP, GEL, HUF, ''
                @ ''ILS, JPY, KZT, MDL, NOK, PLN, SEK, SGD, TMT, TRY, USD, UZS, XAU'')"
    unfolding v iter_example_world by simp
  from t d have r2: "http_requests (snd (message_handle example_world ''exchange 2 usd,xxx'' ''Bob''
                                      initial_state)) = http_requests initial_state"
    by blast
  from a b c c' d r1 r2 show ?thesis by (intro conjI)
qed

text \<open>
  C4 as stated fails for the arguments \<open>exchange abc XXX\<close>: the currency list holds a
  code outside the allow-list, and the message is the one about the day count.
\<close>

theorem arg_parsing_days_message_first:
  "\<not> set (split CHR '','' (upper ([''exchange'', ''abc'', ''XXX''] ! 2))) \<subseteq> API_CURRENCIES
   \<and> arg_parsing example_world [''exchange'', ''abc'', ''XXX'']
       = Inr (\<lparr>kw_days = None, kw_currency = None\<rparr>,
              ''Invalid days count! It must be numeric value between 1 and 10'')
   \<and> ''Invalid days count! It must be numeric value between 1 and 10''
       \<noteq> ''Invalid currency! Use one of available currencies:'' @ [CHR 0x0A]
           @ join '', '' (iter_API_CURRENCIES example_world)"
  by (simp add: arg_parsing_def isdecimal_def isdigit_def days_message_def no_kwargs_def
        upper_def upper_char_def API_CURRENCIES_def API_CURRENCIES_tuple_def)

lemma logger_fresh:
  "file_logger s = None \<Longrightarrow> is_file w log_file \<Longrightarrow>
   logger w s = (Inr \<lparr>date_format = ''%d.%m.%Y %H:%M:%S.%f'', file_path = Some log_file\<rparr>,
                 s\<lparr>file_logger := Some \<lparr>date_format = ''%d.%m.%Y %H:%M:%S.%f'',
                                          file_path = Some log_file\<rparr>\<rparr>)"
  by (simp add: logger_def set_file_def Let_def)

lemma logger_stored: "file_logger s = Some lg \<Longrightarrow> logger w s = (Inr lg, s)"
  by (simp add: logger_def)

text \<open>With no log file and no logger yet, \<open>logger\<close> raises and stores a logger with no file.\<close>

lemma logger_missing_file:
  "file_logger s = None \<Longrightarrow> \<not> is_file w log_file \<Longrightarrow>
   logger w s = (Inl TypeError,
                 s\<lparr>file_logger := Some \<lparr>date_format = ''%d.%m.%Y %H:%M:%S.%f'',
                                          file_path = None\<rparr>\<rparr>)"
  by (simp add: logger_def set_file_def Let_def)

lemma message_handle_missing_log_file:
  assumes "startswith message ''exchange''" and "file_logger s = None" and "\<not> is_file w log_file"
  shows "message_handle w message user_name s
           = (Inl TypeError,
              s\<lparr>file_logger := Some \<lparr>date_format = ''%d.%m.%Y %H:%M:%S.%f'',
                                       file_path = None\<rparr>\<rparr>)"
  using assms(1) logger_missing_file [OF assms(2,3)] by (rule message_handle_no_logger)

lemma events_log:
  "events (log w lg m s)
     = events s @ [case file_path lg of
                     None \<Rightarrow> Print (''At '' @ now w (date_format lg) @ '': '' @ m @ [CHR 0x0A])
                   | Some p \<Rightarrow> FileAppend p (''At '' @ now w (date_format lg) @ '': '' @ m @ [CHR 0x0A])]"
  by (simp add: log_def Let_def emit_def split: option.splits)

text \<open>
  C6, as the code has it. Take a command whose second token is not a decimal literal,
  in a process whose logger can be had: the log file exists, or a logger is stored
  already. The reply is the text, then \<open>result:\<close> after one space, then the message
  about the day count; the parser returns no keyword at all; no request is made; the only
  effect is the audit line with the sender's name and the raw text, appended to the
  logger's file, or printed when the stored logger has no file.
\<close>

theorem message_handle_bad_days:
  assumes "startswith message ''exchange''"
    and "length (split CHR '' '' message) > 1"
    and "\<not> isdecimal (split CHR '' '' message ! 1)"
    and "is_file w log_file \<or> file_logger s \<noteq> None"
  shows "fst (message_handle w message user_name s)
           = Inr (message @ '' result:''
                    @ ''Invalid days count! It must be numeric value between 1 and 10'')
       \<and> arg_parsing w (split CHR '' '' message)
           = Inr (\<lparr>kw_days = None, kw_currency = None\<rparr>,
                  ''Invalid days count! It must be numeric value between 1 and 10'')
       \<and> http_requests (snd (message_handle w message user_name s)) = http_requests s
       \<and> (file_logger s = None \<longrightarrow>
            events (snd (message_handle w message user_name s))
              = events s @ [FileAppend log_file
                              (''At '' @ now w ''%d.%m.%Y %H:%M:%S.%f'' @ '': ''
                                 @ user_name @ '': '' @ message @ [CHR 0x0A])])
       \<and> (\<forall>lg. file_logger s = Some lg \<longrightarrow>
            events (snd (message_handle w message user_name s))
              = events s @ [case file_path lg of
                              None \<Rightarrow> Print (''At '' @ now w (date_format lg) @ '': ''
                                               @ user_name @ '': '' @ message @ [CHR 0x0A])
                            | Some p \<Rightarrow> FileAppend p (''At '' @ now w (date_format lg) @ '': ''
                                               @ user_name @ '': '' @ message @ [CHR 0x0A])])"
proof -
  have p: "arg_parsing w (split CHR '' '' message) = Inr (no_kwargs, days_message)"
    using assms(2,3) by (rule arg_parsing_days_error)
  have r: "message_handle w message user_name s
             = (Inr (message @ '' result:'' @ days_message),
                log w lg (user_name @ '': '' @ message) s1)"
    if "logger w s = (Inr lg, s1)" for lg s1
    using assms(1) that p days_message_nonempty by (rule message_handle_error)
  have parse: "arg_parsing w (split CHR '' '' message)
           = Inr (\<lparr>kw_days = None, kw_currency = None\<rparr>,
                  ''Invalid days count! It must be numeric value between 1 and 10'')"
    using p by (simp add: no_kwargs_def days_message_def)
  have nofetch: "http_requests (snd (message_handle w message user_name s)) = http_requests s"
    using p by (intro message_handle_no_fetch) (simp add: days_message_nonempty)
  show ?thesis
  proof (cases "file_logger s")
    case None
    with assms(4) have f: "is_file w log_file" by simp
    note l = logger_fresh [OF None f]
    from r [OF l] parse nofetch None show ?thesis
      by (simp add: events_log days_message_def)
  next
    case (Some lg)
    note l = logger_stored [OF Some, of w]
    from r [OF l] parse nofetch Some show ?thesis
      by (simp add: events_log days_message_def split: option.splits)
  qed
qed

text \<open>
  The command \<open>exchange abc\<close> sent by Bob to a fresh server whose log file exists.
\<close>

theorem message_handle_bad_days_witness:
  "startswith ''exchange abc'' ''exchange''
   \<and> length (split CHR '' '' ''exchange abc'') > 1
   \<and> \<not> isdecimal (split CHR '' '' ''exchange abc'' ! 1)
   \<and> is_file example_world log_file
   \<and> file_logger initial_state = None
   \<and> fst (message_handle example_world ''exchange abc'' ''Bob'' initial_state)
       = Inr ''exchange abc result:Invalid days count! It must be numeric value between 1 and 10''
   \<and> events (snd (message_handle example_world ''exchange abc'' ''Bob'' initial_state))
       = [FileAppend ''log.log''
            (''At 03.11.2026 12:00:00.000000: Bob: exchange abc'' @ [CHR 0x0A])]
   \<and> http_requests (snd (message_handle example_world ''exchange abc'' ''Bob'' initial_state)) = []"
proof -
  have a: "startswith ''exchange abc'' ''exchange''" by (simp add: startswith_def)
  have b: "length (split CHR '' '' ''exchange abc'') > 1" by simp
  have c: "\<not> isdecimal (split CHR '' '' ''exchange abc'' ! 1)"
    by (simp add: isdecimal_def isdigit_def)
  have g: "is_file example_world log_file" by (simp add: example_world_def)
  then have g': "is_file example_world log_file \<or> file_logger initial_state \<noteq> None" by simp
  have d: "file_logger initial_state = None" by (simp add: initial_state_def)
  have e: "events initial_state = []" by (simp add: initial_state_def)
  have f: "http_requests initial_state = []" by (simp add: initial_state_def http_requests_def)
  have h: "now example_world ''%d.%m.%Y %H:%M:%S.%f'' = ''03.11.2026 12:00:00.000000''"
    by (simp add: example_world_def)
  note t = message_handle_bad_days
             [where w = example_world and user_name = "''Bob''" and s = initial_state, OF a b c g']
  from t have r1: "fst (message_handle example_world ''exchange abc'' ''Bob'' initial_state)
       = Inr (''exchange abc'' @ '' result:''
                @ ''Invalid days count! It must be numeric value between 1 and 10'')"
    by (rule conjunct1)
  from t d have "events (snd (message_handle example_world ''exchange abc'' ''Bob'' initial_state))
        = events initial_state
            @ [FileAppend log_file
                 (''At '' @ now example_world ''%d.%m.%Y %H:%M:%S.%f'' @ '': ''
                    @ ''Bob'' @ '': '' @ ''exchange abc'' @ [CHR 0x0A])]"
    by blast
  then have r2: "events (snd (message_handle example_world ''exchange abc'' ''Bob'' initial_state))
       = [FileAppend ''log.log''
            (''At 03.11.2026 12:00:00.000000: Bob: exchange abc'' @ [CHR 0x0A])]"
    unfolding e h by (simp add: log_file_def)
  from t have "http_requests (snd (message_handle example_world ''exchange abc'' ''Bob'' initial_state))
       = http_requests initial_state"
    by blast
  then have r3: "http_requests (snd (message_handle example_world ''exchange abc'' ''Bob'' initial_state)) = []"
    unfolding f .
  have r1': "fst (message_handle example_world ''exchange abc'' ''Bob'' initial_state)
       = Inr ''exchange abc result:Invalid days count! It must be numeric value between 1 and 10''"
    unfolding r1 by simp
  from a b c g d r1' r2 r3 show ?thesis by (intro conjI)
qed

text \<open>
  C6 as stated fails: the reply to \<open>exchange abc\<close> is not the text followed at once by
  the message; the label \<open>result:\<close> stands between them.
\<close>

theorem message_handle_reply_has_result_label:
  "fst (message_handle example_world ''exchange abc'' ''Bob'' initial_state)
     = Inr ''exchange abc result:Invalid days count! It must be numeric value between 1 and 10''
   \<and> fst (message_handle example_world ''exchange abc'' ''Bob'' initial_state)
     \<noteq> Inr (''exchange abc'' @ ''Invalid days count! It must be numeric value between 1 and 10'')"
proof -
  have a: "startswith ''exchange abc'' ''exchange''" by (simp add: startswith_def)
  have p: "arg_parsing example_world (split CHR '' '' ''exchange abc'') = Inr (no_kwargs, days_message)"
    by (rule arg_parsing_days_error) (simp_all add: isdecimal_def isdigit_def)
  have l: "logger example_world initial_state
             = (Inr \<lparr>date_format = ''%d.%m.%Y %H:%M:%S.%f'', file_path = Some log_file\<rparr>,
                initial_state\<lparr>file_logger := Some \<lparr>date_format = ''%d.%m.%Y %H:%M:%S.%f'',
                                                      file_path = Some log_file\<rparr>\<rparr>)"
    by (rule logger_fresh) (simp_all add: initial_state_def example_world_def)
  have "message_handle example_world ''exchange abc'' ''Bob'' initial_state
          = (Inr (''exchange abc'' @ '' result:'' @ days_message),
             log example_world \<lparr>date_format = ''%d.%m.%Y %H:%M:%S.%f'', file_path = Some log_file\<rparr>
               (''Bob'' @ '': '' @ ''exchange abc'')
               (initial_state\<lparr>file_logger := Some \<lparr>date_format = ''%d.%m.%Y %H:%M:%S.%f'',
                                                      file_path = Some log_file\<rparr>\<rparr>))"
    using a l p days_message_nonempty by (rule message_handle_error)
  then have r: "fst (message_handle example_world ''exchange abc'' ''Bob'' initial_state)
                  = Inr (''exchange abc'' @ '' result:'' @ days_message)"
    by simp
  show ?thesis unfolding r by (simp add: days_message_def)
qed


section \<open>The day count\<close>

lemma arg_parsing_days_only:
  "isdecimal t \<Longrightarrow> length t \<le> 4300 \<Longrightarrow>
   arg_parsing w [cmd, t] = Inr (\<lparr>kw_days = Some (decimal_value t), kw_currency = None\<rparr>, [])"
  by (simp add: arg_parsing_def parse_currencies_def int_of_str_def int_max_str_digits_def
        no_kwargs_def)









text \<open>
  C10. The token \<open>0\<close> is a decimal literal, the parser returns \<open>days = 0\<close> with no
  message, and \<open>exchange_rates\<close> with zero days makes no request and returns the empty
  list.
\<close>

theorem exchange_rates_zero_days:
  "isdecimal ''0''
   \<and> arg_parsing w [cmd, ''0''] = Inr (\<lparr>kw_days = Some 0, kw_currency = None\<rparr>, [])
   \<and> fst (exchange_rates w 0 currency s) = Inr []
   \<and> http_requests (snd (exchange_rates w 0 currency s)) = http_requests s"
proof -
  have a: "isdecimal ''0''" by (simp add: isdecimal_def isdigit_def)
  have b: "arg_parsing w [cmd, ''0''] = Inr (\<lparr>kw_days = Some 0, kw_currency = None\<rparr>, [])"
    using arg_parsing_days_only [OF a, of w cmd] by (simp add: decimal_value_def digit_value_def)
  have c: "exchange_rates w 0 currency s
             = (Inr [], s\<lparr>lists := (lists s)(currency := lists s currency @ base_currency)\<rparr>)"
    by (simp add: exchange_rates_def MAX_DAYS_def gather_def emit_def)
  have d: "http_requests (snd (exchange_rates w 0 currency s)) = http_requests s"
    by (simp add: c http_requests_def)
  from a b c d show ?thesis by simp
qed

end
